theory Spec2Isabelle
  imports Main "HOL-Library.AList"
begin

section \<open>JavaScript values\<close>

text \<open>
  The module \<^verbatim>\<open>mgt-person-card.graph.ts\<close> copies payloads of type \<^verbatim>\<open>any\<close> from batch
  responses into a plain object, so the payloads are modelled as JSON values. An object is
  the list of its own properties in insertion order (keys distinct); \<open>JUndefined\<close> is the
  value a missing property reads as. Numbers are integers: the code only tests numbers for
  being zero and compares them.
\<close>

datatype json =
    JUndefined
  | JNull
  | JBool bool
  | JNum int
  | JStr string
  | JArr "json list"
  | JObj "(string \<times> json) list"

type_synonym obj = "(string \<times> json) list"

text \<open>What a \<^verbatim>\<open>throw\<close> carries: the runtime's TypeError, or a failure of a remote call.\<close>

datatype exn = TypeError | GraphError string

text \<open>JavaScript's ToBoolean, as \<^verbatim>\<open>if (v)\<close>, \<^verbatim>\<open>a || b\<close> and \<^verbatim>\<open>a && b\<close> apply it.\<close>

fun truthy :: "json \<Rightarrow> bool" where
  "truthy JUndefined = False"
| "truthy JNull = False"
| "truthy (JBool b) = b"
| "truthy (JNum n) = (n \<noteq> 0)"
| "truthy (JStr s) = (s \<noteq> [])"
| "truthy (JArr xs) = True"
| "truthy (JObj ps) = True"

text \<open>
  The read \<^verbatim>\<open>v.k\<close> on a value that is neither null nor undefined, for the property
  names this module reads (\<^verbatim>\<open>value\<close>, \<^verbatim>\<open>length\<close>, \<^verbatim>\<open>accountEnabled\<close>, \<^verbatim>\<open>timeCached\<close>,
  \<^verbatim>\<open>subclass\<close>, \<^verbatim>\<open>class\<close>): an object gives its own property, an array and a string
  give their \<^verbatim>\<open>length\<close>, everything else reads as undefined. Of a string's length the
  module uses only that it is positive exactly when the string is not empty.
\<close>

fun get_member :: "json \<Rightarrow> string \<Rightarrow> json" where
  "get_member (JObj ps) k = (case map_of ps k of Some v \<Rightarrow> v | None \<Rightarrow> JUndefined)"
| "get_member (JArr xs) k = (if k = ''length'' then JNum (int (length xs)) else JUndefined)"
| "get_member (JStr s) k = (if k = ''length'' then JNum (int (length s)) else JUndefined)"
| "get_member v k = JUndefined"

definition nullish :: "json \<Rightarrow> bool" where
  "nullish v = (v = JUndefined \<or> v = JNull)"

text \<open>\<^verbatim>\<open>v.k\<close>: reading a property of null or undefined throws a TypeError.\<close>

definition get_prop :: "json \<Rightarrow> string \<Rightarrow> exn + json" where
  "get_prop v k = (if nullish v then Inl TypeError else Inr (get_member v k))"

text \<open>\<^verbatim>\<open>v?.k\<close>: optional chaining gives undefined on null or undefined.\<close>

definition opt_chain :: "json \<Rightarrow> string \<Rightarrow> json" where
  "opt_chain v k = (if nullish v then JUndefined else get_member v k)"

text \<open>The characters \<^verbatim>\<open>'\<close> and \<^verbatim>\<open>"\<close> of the template strings.\<close>

definition squote :: string where
  "squote = [CHR 0x27]"

definition dquote :: string where
  "dquote = [CHR 0x22]"

section \<open>The collaborators: graph client, batch, cache, configuration\<close>

text \<open>
  \<^verbatim>\<open>IDynamicPerson\<close>: the entity's \<^verbatim>\<open>id\<close> (a string) and its other own properties
  (\<^verbatim>\<open>mail\<close>, \<^verbatim>\<open>classification\<close>, \<^verbatim>\<open>personType\<close>, ...).
\<close>

record IDynamicPerson =
  id_field :: string
  props :: obj

text \<open>\<^verbatim>\<open>'k' in personDetails\<close>\<close>

definition has_key :: "string \<Rightarrow> obj \<Rightarrow> bool" where
  "has_key k ps = (map_of ps k \<noteq> None)"

text \<open>
  One entry of a batch, as \<^verbatim>\<open>batch.get(id, resource, scopes?, headers?)\<close> registers it;
  \<open>None\<close> is an argument the call leaves out.
\<close>

record BatchRequest =
  req_id :: string
  req_resource :: string
  req_scopes :: "string list option"
  req_headers :: "(string \<times> string) list option"

type_synonym IBatch = "BatchRequest list"

text \<open>\<^verbatim>\<open>BatchResponse\<close>: the part the module reads.\<close>

record BatchResponse =
  content :: json

datatype http_method = GET | POST json

text \<open>
  A call built with \<^verbatim>\<open>graph.api(path).version(v).header(k, v).middlewareOptions(prepScopes(scopes))\<close>
  and sent with \<^verbatim>\<open>.get()\<close> or \<^verbatim>\<open>.post(body)\<close>.
\<close>

record ApiRequest =
  api_path :: string
  api_version :: "string option"
  api_headers :: "(string \<times> string) list"
  api_scopes :: "string list"
  api_method :: http_method

text \<open>What the module asks of the graph client, in the order it asks.\<close>

datatype call = CreateBatch | ExecuteAll "BatchRequest list" | Api ApiRequest

text \<open>
  \<^verbatim>\<open>IGraph\<close>: what the remote side answers. \<open>batch_server\<close> answers a batch with a
  failure of the whole batch or with a response for some of the request names;
  \<open>api_server\<close> answers a single call; \<open>duration\<close> is the time a call takes.
\<close>

record IGraph =
  batch_server :: "BatchRequest list \<Rightarrow> exn + (string \<Rightarrow> BatchResponse option)"
  api_server :: "ApiRequest \<Rightarrow> exn + json"
  duration :: "call \<Rightarrow> nat"

text \<open>
  The state outside the module: the \<^verbatim>\<open>cardState\<close> cache store, the clock that
  \<^verbatim>\<open>Date.now()\<close> reads, and the calls made on the graph client so far.
\<close>

record world =
  cache :: "string \<Rightarrow> obj option"
  clock :: int
  calls :: "call list"

text \<open>\<^verbatim>\<open>MgtPersonCardConfig.sections\<close>; \<open>organization = None\<close> is a falsy section.\<close>

record organization_config =
  showWorksWith :: bool

record sections_config =
  organization :: "organization_config option"
  mailMessages :: bool
  files :: bool
  profile :: bool

text \<open>
  What the module takes from its imports and from the runtime: the section configuration, the two
  invalidation periods of \<^verbatim>\<open>CacheService.config\<close>, \<^verbatim>\<open>getEmailFromGraphEntity\<close> (\<open>None\<close>
  is null), the scope lists \<^verbatim>\<open>validUserByIdScopes\<close> and \<^verbatim>\<open>validInsightScopes\<close>, and the
  runtime's ToNumber on a string, an array or an object (\<open>None\<close> is NaN; it may throw).
\<close>

record env =
  sections :: sections_config
  users_invalidationPeriod :: int
  defaultInvalidationPeriod :: int
  getEmailFromGraphEntity :: "IDynamicPerson \<Rightarrow> string option"
  validUserByIdScopes :: "string list"
  validInsightScopes :: "string list"
  ToNumber_object :: "json \<Rightarrow> exn + int option"

text \<open>A call on the graph client is recorded and takes its time.\<close>

definition perform :: "IGraph \<Rightarrow> call \<Rightarrow> world \<Rightarrow> world" where
  "perform graph c w = w\<lparr>clock := clock w + int (duration graph c), calls := calls w @ [c]\<rparr>"

text \<open>\<^verbatim>\<open>graph.api(...)....get()\<close> and \<^verbatim>\<open>.post(body)\<close>: the answer, or the failure thrown.\<close>

definition api_send :: "IGraph \<Rightarrow> ApiRequest \<Rightarrow> world \<Rightarrow> (exn + json) \<times> world" where
  "api_send graph r w = (api_server graph r, perform graph (Api r) w)"

text \<open>
  Modelled from the spec: \<^verbatim>\<open>graph.createBatch()\<close> belongs to \<^verbatim>\<open>@microsoft/mgt-element\<close>,
  outside the module. \<^verbatim>\<open>createBatch() -> Batch\<close>: a new batch with no request.
\<close>

definition createBatch :: "IGraph \<Rightarrow> world \<Rightarrow> IBatch \<times> world" where
  "createBatch graph w = ([], perform graph CreateBatch w)"

text \<open>
  Modelled from the spec: \<^verbatim>\<open>IBatch.get\<close> belongs to \<^verbatim>\<open>@microsoft/mgt-element\<close>, outside
  the module. \<^verbatim>\<open>batch.get(name, path, scopes, headers?)\<close> registers a request.
\<close>

definition batch_get ::
  "IBatch \<Rightarrow> string \<Rightarrow> string \<Rightarrow> string list option \<Rightarrow> (string \<times> string) list option \<Rightarrow> IBatch" where
  "batch_get batch i r s h =
     batch @ [\<lparr>req_id = i, req_resource = r, req_scopes = s, req_headers = h\<rparr>]"

text \<open>
  Modelled from the spec: the result of \<^verbatim>\<open>IBatch.executeAll\<close>, outside the module, is
  \<^verbatim>\<open>Map<name, {content}>\<close>, a mapping from request name to response-or-error: one entry
  for each registered name that was answered.
\<close>

definition response_map ::
  "IBatch \<Rightarrow> (string \<Rightarrow> BatchResponse option) \<Rightarrow> (string \<times> BatchResponse) list" where
  "response_map batch answer =
     concat (map (\<lambda>k. case answer k of None \<Rightarrow> [] | Some r \<Rightarrow> [(k, r)])
                 (remdups (map req_id batch)))"

text \<open>
  Modelled from the spec: \<^verbatim>\<open>IBatch.executeAll\<close> belongs to \<^verbatim>\<open>@microsoft/mgt-element\<close>,
  outside the module. \<^verbatim>\<open>batch.executeAll() -> Map<name, {content}>\<close> or throws.
\<close>

definition executeAll ::
  "IGraph \<Rightarrow> IBatch \<Rightarrow> world \<Rightarrow> (exn + (string \<times> BatchResponse) list) \<times> world" where
  "executeAll graph batch w =
     (case batch_server graph batch of
        Inl e \<Rightarrow> Inl e
      | Inr answer \<Rightarrow> Inr (response_map batch answer),
      perform graph (ExecuteAll batch) w)"

text \<open>
  Modelled from the spec: \<^verbatim>\<open>CacheStore.getValue\<close> belongs to \<^verbatim>\<open>@microsoft/mgt-element\<close>,
  outside the module. \<^verbatim>\<open>getValue(key) -> CardState|undefined\<close>, keyed by entity id.
\<close>

definition getValue :: "world \<Rightarrow> string \<Rightarrow> obj option" where
  "getValue w key = cache w key"

text \<open>
  Modelled from the spec: \<^verbatim>\<open>CacheStore.putValue\<close> belongs to \<^verbatim>\<open>@microsoft/mgt-element\<close>,
  outside the module. \<^verbatim>\<open>putValue(key, value) -> void\<close>: a cache entry is the card state
  plus a write timestamp (its \<^verbatim>\<open>timeCached\<close> property), and a write overwrites any prior
  entry under the key.
\<close>

definition putValue :: "string \<Rightarrow> obj \<Rightarrow> world \<Rightarrow> world" where
  "putValue key item w =
     w\<lparr>cache := (cache w)(key \<mapsto> AList.update ''timeCached'' (JNum (clock w)) item)\<rparr>"

section \<open>The request builders\<close>

definition userProperties :: string where
  "userProperties =
     ''businessPhones,companyName,department,displayName,givenName,jobTitle,mail,mobilePhone,officeLocation,preferredLanguage,surname,userPrincipalName,id,accountEnabled''"

definition buildOrgStructureRequest :: "env \<Rightarrow> IBatch \<Rightarrow> string \<Rightarrow> IBatch" where
  "buildOrgStructureRequest en batch userId =
     (let expandManagers = ''manager($levels=max;$select='' @ userProperties @ '')'';
          batch1 = batch_get batch ''person''
            (''users/'' @ userId @ ''?$expand='' @ expandManagers @ ''&$select='' @ userProperties
               @ ''&$count=true'')
            (Some (validUserByIdScopes en))
            (Some [(''ConsistencyLevel'', ''eventual'')])
      in batch_get batch1 ''directReports''
            (''users/'' @ userId @ ''/directReports?$select='' @ userProperties) None None)"

definition validPeopleScopes :: "string list" where
  "validPeopleScopes = [''People.Read.All'']"

definition buildWorksWithRequest :: "IBatch \<Rightarrow> string \<Rightarrow> IBatch" where
  "buildWorksWithRequest batch userId =
     batch_get batch ''people''
       (''users/'' @ userId @ ''/people?$filter=personType/class eq '' @ squote @ ''Person'' @ squote)
       (Some validPeopleScopes) None"

definition validMailSearchScopes :: "string list" where
  "validMailSearchScopes = [''Mail.ReadBasic'', ''Mail.Read'', ''Mail.ReadWrite'']"

definition buildMessagesWithUserRequest :: "IBatch \<Rightarrow> string \<Rightarrow> IBatch" where
  "buildMessagesWithUserRequest batch emailAddress =
     batch_get batch ''messages''
       (''me/messages?$search='' @ dquote @ ''from:'' @ emailAddress @ dquote)
       (Some validMailSearchScopes) None"

text \<open>\<^verbatim>\<open>if (emailAddress)\<close> on a \<^verbatim>\<open>string | null | undefined\<close>.\<close>

definition truthy_string :: "string option \<Rightarrow> bool" where
  "truthy_string s = (case s of None \<Rightarrow> False | Some t \<Rightarrow> t \<noteq> [])"

definition buildFilesRequest :: "env \<Rightarrow> IBatch \<Rightarrow> string option \<Rightarrow> IBatch" where
  "buildFilesRequest en batch emailAddress =
     (let request =
        (case emailAddress of
           Some a \<Rightarrow>
             if a \<noteq> []
             then ''me/insights/shared?$filter=lastshared/sharedby/address eq '' @ squote @ a @ squote
             else ''me/insights/used''
         | None \<Rightarrow> ''me/insights/used'')
      in batch_get batch ''files'' request (Some (validInsightScopes en)) None)"

section \<open>Chat operations\<close>

definition validCreateChatScopes :: "string list" where
  "validCreateChatScopes = [''Chat.Create'', ''Chat.ReadWrite'']"

definition createChat :: "IGraph \<Rightarrow> string \<Rightarrow> string \<Rightarrow> world \<Rightarrow> (exn + json) \<times> world" where
  "createChat graph person user w =
     (let chatData = JObj
        [(''chatType'', JStr ''oneOnOne''),
         (''members'', JArr
            [JObj [(''@odata.type'', JStr ''#microsoft.graph.aadUserConversationMember''),
                   (''roles'', JArr [JStr ''owner'']),
                   (''user@odata.bind'',
                      JStr (''https://graph.microsoft.com/v1.0/users('' @ squote @ user @ squote @ '')''))],
             JObj [(''@odata.type'', JStr ''#microsoft.graph.aadUserConversationMember''),
                   (''roles'', JArr [JStr ''owner'']),
                   (''user@odata.bind'',
                      JStr (''https://graph.microsoft.com/v1.0/users('' @ squote @ person @ squote @ '')''))]])]
      in api_send graph
           \<lparr>api_path = ''/chats'', api_version = None,
            api_headers = [(''Cache-Control'', ''no-store'')],
            api_scopes = validCreateChatScopes, api_method = POST chatData\<rparr> w)"

section \<open>Fetching the card data\<close>

definition getCardStateInvalidationTime :: "env \<Rightarrow> int" where
  "getCardStateInvalidationTime en =
     (if users_invalidationPeriod en \<noteq> 0 then users_invalidationPeriod en
      else defaultInvalidationPeriod en)"

text \<open>
  The runtime's ToNumber, which \<^verbatim>\<open>-\<close> and \<^verbatim>\<open>>\<close> apply to their operands: \<open>None\<close> is
  NaN. On a string, an array or an object it is the parameter \<open>ToNumber_object\<close>.
\<close>

fun ToNumber :: "env \<Rightarrow> json \<Rightarrow> exn + int option" where
  "ToNumber en JUndefined = Inr None"
| "ToNumber en JNull = Inr (Some 0)"
| "ToNumber en (JBool b) = Inr (Some (if b then 1 else 0))"
| "ToNumber en (JNum n) = Inr (Some n)"
| "ToNumber en v = ToNumber_object en v"

text \<open>
  \<^verbatim>\<open>getCardStateInvalidationTime() > Date.now() - cardState.timeCached\<close>; a comparison
  with NaN is false.
\<close>

definition is_fresh :: "env \<Rightarrow> int \<Rightarrow> obj \<Rightarrow> exn + bool" where
  "is_fresh en now cardState =
     (case ToNumber en (get_member (JObj cardState) ''timeCached'') of
        Inl e \<Rightarrow> Inl e
      | Inr None \<Rightarrow> Inr False
      | Inr (Some t) \<Rightarrow> Inr (getCardStateInvalidationTime en > now - t))"

text \<open>
  \<^verbatim>\<open>cardState && getCardStateInvalidationTime() > Date.now() - cardState.timeCached\<close>:
  the entry to return, if any.
\<close>

definition cache_hit :: "env \<Rightarrow> int \<Rightarrow> obj option \<Rightarrow> exn + obj option" where
  "cache_hit en now cardState =
     (case cardState of
        None \<Rightarrow> Inr None
      | Some cs \<Rightarrow>
          (case is_fresh en now cs of
             Inl e \<Rightarrow> Inl e
           | Inr b \<Rightarrow> Inr (if b then Some cs else None)))"

text \<open>
  \<^verbatim>\<open>'classification' in personDetails || ('personType' in personDetails &&
  (personDetails.personType.subclass === 'PersonalContact' ||
   personDetails.personType.class === 'Group'))\<close>
\<close>

definition isContactOrGroup :: "IDynamicPerson \<Rightarrow> exn + bool" where
  "isContactOrGroup personDetails =
     (if has_key ''classification'' (props personDetails) then Inr True
      else if has_key ''personType'' (props personDetails) then
        (let personType = get_member (JObj (props personDetails)) ''personType'' in
         case get_prop personType ''subclass'' of
           Inl e \<Rightarrow> Inl e
         | Inr sc \<Rightarrow>
             if sc = JStr ''PersonalContact'' then Inr True
             else (case get_prop personType ''class'' of
                     Inl e \<Rightarrow> Inl e
                   | Inr c \<Rightarrow> Inr (c = JStr ''Group'')))
      else Inr False)"

text \<open>The requests put into the batch, from the configuration and the classification.\<close>

definition enqueueRequests ::
  "env \<Rightarrow> string \<Rightarrow> string option \<Rightarrow> bool \<Rightarrow> bool \<Rightarrow> IBatch \<Rightarrow> IBatch" where
  "enqueueRequests en userId email isMe isCG batch =
     (let batch1 =
            (if \<not> isCG then
               (case organization (sections en) of
                  None \<Rightarrow> batch
                | Some org \<Rightarrow>
                    (let b = buildOrgStructureRequest en batch userId
                     in if showWorksWith org then buildWorksWithRequest b userId else b))
             else batch);
          batch2 =
            (if mailMessages (sections en) \<and> truthy_string email
             then buildMessagesWithUserRequest batch1 (case email of Some a \<Rightarrow> a | None \<Rightarrow> [])
             else batch1)
      in if files (sections en)
         then buildFilesRequest en batch2 (if isMe then None else email)
         else batch2)"

text \<open>\<^verbatim>\<open>value.content?.value || value.content\<close>\<close>

definition payload :: "BatchResponse \<Rightarrow> json" where
  "payload v =
     (if truthy (opt_chain (content v) ''value'') then opt_chain (content v) ''value''
      else content v)"

text \<open>\<^verbatim>\<open>for (const [key, value] of response) data[key] = ...\<close>\<close>

fun mergeResponses :: "(string \<times> BatchResponse) list \<Rightarrow> obj \<Rightarrow> obj" where
  "mergeResponses [] data = data"
| "mergeResponses ((key, v) # rest) data = mergeResponses rest (AList.update key (payload v) data)"

definition validProfileScopes :: "string list" where
  "validProfileScopes = [''User.Read.All'', ''User.ReadWrite.All'']"

definition profileRequest :: "string \<Rightarrow> ApiRequest" where
  "profileRequest userId =
     \<lparr>api_path = ''/users/'' @ userId @ ''/profile'', api_version = Some ''beta'',
      api_headers = [], api_scopes = validProfileScopes, api_method = GET\<rparr>"

definition getProfile :: "IGraph \<Rightarrow> string \<Rightarrow> world \<Rightarrow> (exn + json) \<times> world" where
  "getProfile graph userId w = api_send graph (profileRequest userId) w"

text \<open>
  The profile step: \<^verbatim>\<open>try { const profile = await getProfile(graph, userId);
  if (profile) data.profile = profile; } catch { }\<close>, when the entity is no contact or
  group and the profile section is enabled.
\<close>

definition addProfile ::
  "env \<Rightarrow> IGraph \<Rightarrow> string \<Rightarrow> bool \<Rightarrow> obj \<Rightarrow> world \<Rightarrow> obj \<times> world" where
  "addProfile en graph userId isCG data w =
     (if \<not> isCG \<and> profile (sections en) then
        (case getProfile graph userId w of
           (Inl e, w') \<Rightarrow> (data, w')
         | (Inr p, w') \<Rightarrow> (if truthy p then AList.update ''profile'' p data else data, w'))
      else (data, w))"

text \<open>
  \<^verbatim>\<open>data.directReports.filter(report => report.accountEnabled)\<close>: reading
  \<^verbatim>\<open>accountEnabled\<close> of a null or undefined entry throws.
\<close>

fun filter_reports :: "json list \<Rightarrow> exn + json list" where
  "filter_reports [] = Inr []"
| "filter_reports (report # rest) =
     (case get_prop report ''accountEnabled'' of
        Inl e \<Rightarrow> Inl e
      | Inr a \<Rightarrow>
          (case filter_reports rest of
             Inl e \<Rightarrow> Inl e
           | Inr kept \<Rightarrow> Inr (if truthy a then report # kept else kept)))"

text \<open>\<^verbatim>\<open>v.length > 0\<close>\<close>

definition length_positive :: "env \<Rightarrow> json \<Rightarrow> exn + bool" where
  "length_positive en v =
     (case ToNumber en (get_member v ''length'') of
        Inl e \<Rightarrow> Inl e
      | Inr None \<Rightarrow> Inr False
      | Inr (Some n) \<Rightarrow> Inr (n > 0))"

text \<open>
  The post-filter: \<^verbatim>\<open>if (data.directReports && data.directReports.length > 0)
  data.directReports = data.directReports.filter(...)\<close>. Only an array has a \<^verbatim>\<open>filter\<close>
  to call: on any other value with a positive length the call throws a TypeError.
\<close>

definition postFilter :: "env \<Rightarrow> obj \<Rightarrow> exn + obj" where
  "postFilter en data =
     (let directReports = get_member (JObj data) ''directReports'' in
      if \<not> truthy directReports then Inr data
      else
        (case length_positive en directReports of
           Inl e \<Rightarrow> Inl e
         | Inr False \<Rightarrow> Inr data
         | Inr True \<Rightarrow>
             (case directReports of
                JArr reports \<Rightarrow>
                  (case filter_reports reports of
                     Inl e \<Rightarrow> Inl e
                   | Inr kept \<Rightarrow> Inr (AList.update ''directReports'' (JArr kept) data))
              | _ \<Rightarrow> Inl TypeError)))"

text \<open>
  The batch part: create the batch, enqueue the requests, execute it, and copy the
  responses into a fresh record; \<^verbatim>\<open>try { response = await batch.executeAll(); } catch { }\<close>
  leaves the record empty when the batch throws.
\<close>

definition fetchBatchData ::
  "env \<Rightarrow> IGraph \<Rightarrow> string \<Rightarrow> string option \<Rightarrow> bool \<Rightarrow> bool \<Rightarrow> world \<Rightarrow> obj \<times> world" where
  "fetchBatchData en graph userId email isMe isCG w =
     (let (batch0, w1) = createBatch graph w;
          batch = enqueueRequests en userId email isMe isCG batch0;
          (response, w2) = executeAll graph batch w1
      in (case response of Inl e \<Rightarrow> [] | Inr rs \<Rightarrow> mergeResponses rs [], w2))"

text \<open>The record assembled before the post-filter: the batch part, then the profile.\<close>

definition collectData ::
  "env \<Rightarrow> IGraph \<Rightarrow> string \<Rightarrow> string option \<Rightarrow> bool \<Rightarrow> bool \<Rightarrow> world \<Rightarrow> obj \<times> world" where
  "collectData en graph userId email isMe isCG w =
     (let (data, w2) = fetchBatchData en graph userId email isMe isCG w
      in addProfile en graph userId isCG data w2)"

definition getPersonCardGraphData ::
  "env \<Rightarrow> IGraph \<Rightarrow> IDynamicPerson \<Rightarrow> bool \<Rightarrow> world \<Rightarrow> (exn + obj) \<times> world" where
  "getPersonCardGraphData en graph personDetails isMe w =
     (let userId = id_field personDetails;
          email = getEmailFromGraphEntity en personDetails;
          cardState = getValue w userId
      in case cache_hit en (clock w) cardState of
           Inl e \<Rightarrow> (Inl e, w)
         | Inr (Some cs) \<Rightarrow> (Inr cs, w)
         | Inr None \<Rightarrow>
             (case isContactOrGroup personDetails of
                Inl e \<Rightarrow> (Inl e, w)
              | Inr isCG \<Rightarrow>
                  (let (data, w3) = collectData en graph userId email isMe isCG w
                   in case postFilter en data of
                        Inl e \<Rightarrow> (Inl e, w3)
                      | Inr data' \<Rightarrow> (Inr data', putValue userId data' w3))))"

section \<open>Example inputs\<close>

definition example_env :: env where
  "example_env =
     \<lparr>sections = \<lparr>organization = Some \<lparr>showWorksWith = True\<rparr>, mailMessages = True,
                   files = True, profile = True\<rparr>,
      users_invalidationPeriod = 3600000,
      defaultInvalidationPeriod = 3600000,
      getEmailFromGraphEntity =
        (\<lambda>p. case map_of (props p) ''mail'' of Some (JStr m) \<Rightarrow> Some m | _ \<Rightarrow> None),
      validUserByIdScopes = [''User.Read.All''],
      validInsightScopes = [''Sites.Read.All''],
      ToNumber_object = (\<lambda>v. Inr None)\<rparr>"

definition person_u1 :: IDynamicPerson where
  "person_u1 = \<lparr>id_field = ''u1'', props = [(''mail'', JStr ''u1@x.com'')]\<rparr>"

definition person_contact :: IDynamicPerson where
  "person_contact =
     \<lparr>id_field = ''c1'',
      props = [(''personType'', JObj [(''class'', JStr ''Person''), (''subclass'', JStr ''PersonalContact'')])]\<rparr>"

definition graph_down :: IGraph where
  "graph_down =
     \<lparr>batch_server = (\<lambda>b. Inl (GraphError ''batch'')),
      api_server = (\<lambda>r. Inl (GraphError ''api'')),
      duration = (\<lambda>c. 5)\<rparr>"

definition world_empty :: world where
  "world_empty = \<lparr>cache = (\<lambda>k. None), clock = 1000, calls = []\<rparr>"

definition world_cached :: world where
  "world_cached =
     \<lparr>cache = (\<lambda>k. if k = ''u1'' then Some [(''person'', JObj []), (''timeCached'', JNum 900)] else None),
      clock = 1000, calls = []\<rparr>"

definition report_enabled :: json where
  "report_enabled = JObj [(''id'', JStr ''r1''), (''accountEnabled'', JBool True)]"

definition report_disabled :: json where
  "report_disabled = JObj [(''id'', JStr ''r2''), (''accountEnabled'', JBool False)]"

definition report_unflagged :: json where
  "report_unflagged = JObj [(''id'', JStr ''r3'')]"

definition report_null :: json where
  "report_null = JObj [(''id'', JStr ''r4''), (''accountEnabled'', JNull)]"

definition graph_reports :: IGraph where
  "graph_reports =
     \<lparr>batch_server = (\<lambda>b. Inr (\<lambda>k.
        if k = ''directReports''
        then Some \<lparr>content = JObj [(''value'',
               JArr [report_enabled, report_disabled, report_unflagged, report_null])]\<rparr>
        else if k = ''people'' then Some \<lparr>content = JObj [(''value'', JBool False)]\<rparr>
        else None)),
      api_server = (\<lambda>r. Inl (GraphError ''profile'')),
      duration = (\<lambda>c. 5)\<rparr>"


definition graph_people :: IGraph where
  "graph_people =
     \<lparr>batch_server = (\<lambda>b. Inr (\<lambda>k.
        if k = ''people''
        then Some \<lparr>content = JObj [(''value'', JArr [JObj [(''id'', JStr ''p1'')]])]\<rparr>
        else if k = ''person''
        then Some \<lparr>content = JObj [(''id'', JStr ''u1''), (''displayName'', JStr ''U One'')]\<rparr>
        else None)),
      api_server = (\<lambda>r. Inl (GraphError ''profile'')),
      duration = (\<lambda>c. 5)\<rparr>"

section \<open>Auxiliary facts\<close>

lemma get_member_update_same:
  "get_member (JObj (AList.update k v ps)) k = v"
  by (simp add: update_conv')

lemma filter_reports_Inr:
  "filter_reports xs = Inr ys \<Longrightarrow>
     ys = filter (\<lambda>r. truthy (get_member r ''accountEnabled'')) xs \<and> (\<forall>r \<in> set xs. \<not> nullish r)"
  by (induction xs arbitrary: ys) (auto simp: get_prop_def split: sum.splits if_splits)


lemma postFilter_other_keys:
  "postFilter en d = Inr d' \<Longrightarrow> k \<noteq> ''directReports'' \<Longrightarrow> map_of d' k = map_of d k"
  by (auto simp: postFilter_def Let_def update_conv' split: if_splits sum.splits bool.splits json.splits)

lemma postFilter_array:
  "postFilter en d = Inr d' \<Longrightarrow> get_member (JObj d) ''directReports'' = JArr xs \<Longrightarrow>
   get_member (JObj d') ''directReports'' = JArr (filter (\<lambda>r. truthy (get_member r ''accountEnabled'')) xs)"
  apply (auto simp: postFilter_def Let_def update_conv' length_positive_def split: if_splits sum.splits bool.splits json.splits option.splits dest!: filter_reports_Inr)
  done

lemma postFilter_result_array:
  "postFilter en d = Inr d' \<Longrightarrow> get_member (JObj d') ''directReports'' = JArr ys \<Longrightarrow>
   \<forall>r \<in> set ys. truthy (get_member r ''accountEnabled'')"
  apply (auto simp: postFilter_def Let_def update_conv' length_positive_def split: if_splits sum.splits bool.splits json.splits option.splits dest!: filter_reports_Inr)
  done

lemma hit_result:
  "cache_hit en (clock w) (getValue w (id_field p)) = Inr (Some cs) \<Longrightarrow>
   getPersonCardGraphData en graph p isMe w = (Inr cs, w)"
  by (simp add: getPersonCardGraphData_def)

lemma cache_hit_fresh:
  "cache w key = Some cs \<Longrightarrow> get_member (JObj cs) ''timeCached'' = JNum t \<Longrightarrow>
   now - t < getCardStateInvalidationTime en \<Longrightarrow>
   cache_hit en now (getValue w key) = Inr (Some cs)"
  by (simp add: cache_hit_def getValue_def is_fresh_def)

lemma miss_result:
  "cache_hit en (clock w) (getValue w (id_field p)) = Inr None \<Longrightarrow>
   isContactOrGroup p = Inr isCG \<Longrightarrow>
   getPersonCardGraphData en graph p isMe w =
     (case postFilter en (fst (collectData en graph (id_field p) (getEmailFromGraphEntity en p) isMe isCG w)) of
        Inl e \<Rightarrow> (Inl e, snd (collectData en graph (id_field p) (getEmailFromGraphEntity en p) isMe isCG w))
      | Inr data' \<Rightarrow> (Inr data', putValue (id_field p) data'
           (snd (collectData en graph (id_field p) (getEmailFromGraphEntity en p) isMe isCG w))))"
  by (simp add: getPersonCardGraphData_def Let_def case_prod_beta)

lemma addProfile_fst:
  "fst (addProfile en graph userId isCG data w) =
     (if \<not> isCG \<and> profile (sections en) then
        (case api_server graph (profileRequest userId) of
           Inl e \<Rightarrow> data
         | Inr p \<Rightarrow> if truthy p then AList.update ''profile'' p data else data)
      else data)"
  by (simp add: addProfile_def getProfile_def api_send_def split: sum.splits)

lemma fetchBatchData_fst:
  "fst (fetchBatchData en graph userId email isMe isCG w) =
     (case batch_server graph (enqueueRequests en userId email isMe isCG []) of
        Inl e \<Rightarrow> []
      | Inr answer \<Rightarrow>
          mergeResponses (response_map (enqueueRequests en userId email isMe isCG []) answer) [])"
  by (cases "batch_server graph (enqueueRequests en userId email isMe isCG [])")
     (simp_all add: fetchBatchData_def createBatch_def executeAll_def Let_def case_prod_beta)

lemma fetchBatchData_snd:
  "snd (fetchBatchData en graph userId email isMe isCG w) =
     perform graph (ExecuteAll (enqueueRequests en userId email isMe isCG []))
       (perform graph CreateBatch w)"
  by (simp add: fetchBatchData_def createBatch_def executeAll_def Let_def case_prod_beta)

lemma collectData_fst:
  "fst (collectData en graph userId email isMe isCG w) =
     (let data = fst (fetchBatchData en graph userId email isMe isCG w) in
      if \<not> isCG \<and> profile (sections en) then
        (case api_server graph (profileRequest userId) of
           Inl e \<Rightarrow> data
         | Inr p \<Rightarrow> if truthy p then AList.update ''profile'' p data else data)
      else data)"
  by (simp add: collectData_def Let_def case_prod_beta addProfile_fst)

lemma collectData_calls:
  "calls (snd (collectData en graph userId email isMe isCG w)) =
     calls w @ [CreateBatch, ExecuteAll (enqueueRequests en userId email isMe isCG [])]
       @ (if \<not> isCG \<and> profile (sections en) then [Api (profileRequest userId)] else [])"
  by (simp add: collectData_def fetchBatchData_snd addProfile_def getProfile_def api_send_def
      perform_def Let_def case_prod_beta split: sum.splits)

lemma collectData_cache:
  "cache (snd (collectData en graph userId email isMe isCG w)) = cache w"
  by (simp add: collectData_def fetchBatchData_snd addProfile_def getProfile_def api_send_def
      perform_def Let_def case_prod_beta split: sum.splits)

lemma mergeResponses_absent:
  "k \<notin> fst ` set rs \<Longrightarrow> map_of (mergeResponses rs data) k = map_of data k"
  by (induction rs arbitrary: data) (auto simp: update_conv')

lemma mergeResponses_present:
  "distinct (map fst rs) \<Longrightarrow> (k, v) \<in> set rs \<Longrightarrow>
   map_of (mergeResponses rs data) k = Some (payload v)"
proof (induction rs arbitrary: data)
  case Nil
  then show ?case by simp
next
  case (Cons a rs)
  obtain key v' where a: "a = (key, v')" by (cases a)
  show ?case
  proof (cases "(k, v) \<in> set rs")
    case True
    with Cons a show ?thesis by simp
  next
    case False
    with Cons.prems a have kv: "k = key" "v = v'" by auto
    from Cons.prems a have "key \<notin> fst ` set rs" by simp
    with kv a show ?thesis
      by (simp add: mergeResponses_absent update_conv')
  qed
qed


lemma response_map_distinct:
  "distinct (map fst (response_map batch answer))"
proof -
  have "\<And>ks. distinct ks \<Longrightarrow>
     distinct (map fst (concat (map (\<lambda>k. case answer k of None \<Rightarrow> [] | Some r \<Rightarrow> [(k, r)]) ks)))"
  proof -
    fix ks :: "string list"
    show "distinct ks \<Longrightarrow>
      distinct (map fst (concat (map (\<lambda>k. case answer k of None \<Rightarrow> [] | Some r \<Rightarrow> [(k, r)]) ks)))"
      by (induction ks) (auto split: option.splits)
  qed
  then show ?thesis by (simp add: response_map_def)
qed

lemma enqueueRequests_ids:
  "req_id ` set (enqueueRequests en userId email isMe isCG batch)
     \<subseteq> req_id ` set batch \<union> {''person'', ''directReports'', ''people'', ''messages'', ''files''}"
  by (auto simp: enqueueRequests_def Let_def buildOrgStructureRequest_def buildWorksWithRequest_def
      buildMessagesWithUserRequest_def buildFilesRequest_def batch_get_def split: option.splits if_splits)

lemma enqueueRequests_contact_ids:
  "req_id ` set (enqueueRequests en userId email isMe True batch)
     \<subseteq> req_id ` set batch \<union> {''messages'', ''files''}"
  by (auto simp: enqueueRequests_def Let_def buildOrgStructureRequest_def buildWorksWithRequest_def
      buildMessagesWithUserRequest_def buildFilesRequest_def batch_get_def split: option.splits if_splits)

lemma miss_result_Inr:
  assumes miss: "cache_hit en (clock w) (getValue w (id_field p)) = Inr None"
    and cg: "isContactOrGroup p = Inr isCG"
    and result: "getPersonCardGraphData en graph p isMe w = (Inr data, w')"
  shows "postFilter en (fst (collectData en graph (id_field p) (getEmailFromGraphEntity en p) isMe isCG w))
           = Inr data
     \<and> w' = putValue (id_field p) data
           (snd (collectData en graph (id_field p) (getEmailFromGraphEntity en p) isMe isCG w))"
  using result by (auto simp: miss_result [OF miss cg] split: sum.splits)



lemma putValue_lookup:
  "cache (putValue key item w) key = Some (AList.update ''timeCached'' (JNum (clock w)) item)"
  by (simp add: putValue_def)

lemma putValue_clock:
  "clock (putValue key item w) = clock w"
  by (simp add: putValue_def)

text \<open>
  Switching the profile section off changes nothing but the profile step.
\<close>

lemma response_map_lookup:
  "map_of (response_map batch answer) k = (if k \<in> req_id ` set batch then answer k else None)"
proof -
  have "\<And>ks. map_of (concat (map (\<lambda>k. case answer k of None \<Rightarrow> [] | Some r \<Rightarrow> [(k, r)]) ks)) k
     = (if k \<in> set ks then answer k else None)"
  proof -
    fix ks :: "string list"
    show "map_of (concat (map (\<lambda>k. case answer k of None \<Rightarrow> [] | Some r \<Rightarrow> [(k, r)]) ks)) k
     = (if k \<in> set ks then answer k else None)"
      by (induction ks) (auto split: option.splits)
  qed
  then show ?thesis by (simp add: response_map_def)
qed












text \<open>The definitions a concrete run unfolds.\<close>

lemmas model_defs =
  getPersonCardGraphData_def getValue_def cache_hit_def is_fresh_def isContactOrGroup_def
  has_key_def get_prop_def nullish_def collectData_def fetchBatchData_def createBatch_def executeAll_def
  perform_def enqueueRequests_def buildOrgStructureRequest_def buildWorksWithRequest_def
  buildMessagesWithUserRequest_def buildFilesRequest_def batch_get_def truthy_string_def
  response_map_def payload_def opt_chain_def addProfile_def getProfile_def api_send_def
  profileRequest_def postFilter_def length_positive_def putValue_def
  getCardStateInvalidationTime_def Let_def

section \<open>The properties\<close>

text \<open>
  C1. When the cache holds an entry for the entity id whose age (the clock's reading minus
  the entry's \<^verbatim>\<open>timeCached\<close>) is less than the invalidation period,
  \<open>getPersonCardGraphData\<close> returns that entry unchanged and leaves the world as it is: no
  batch is created or executed and no profile is fetched.
\<close>

theorem cached_entry_returned:
  assumes "cache w (id_field p) = Some cs"
    and "get_member (JObj cs) ''timeCached'' = JNum t"
    and "clock w - t < getCardStateInvalidationTime en"
  shows "getPersonCardGraphData en graph p isMe w = (Inr cs, w)"
  using assms by (simp add: hit_result cache_hit_fresh)

theorem cached_entry_returned_witness:
  "cache world_cached (id_field person_u1) = Some [(''person'', JObj []), (''timeCached'', JNum 900)]
   \<and> clock world_cached - 900 < getCardStateInvalidationTime example_env
   \<and> getPersonCardGraphData example_env graph_down person_u1 False world_cached =
       (Inr [(''person'', JObj []), (''timeCached'', JNum 900)], world_cached)
   \<and> calls world_cached = []"
proof -
  have c: "cache world_cached (id_field person_u1) = Some [(''person'', JObj []), (''timeCached'', JNum 900)]"
    by (simp add: world_cached_def person_u1_def)
  have t: "get_member (JObj [(''person'', JObj []), (''timeCached'', JNum 900)]) ''timeCached'' = JNum 900"
    by simp
  have f: "clock world_cached - 900 < getCardStateInvalidationTime example_env"
    by (simp add: world_cached_def example_env_def getCardStateInvalidationTime_def)
  show ?thesis
    using cached_entry_returned [OF c t f, of graph_down False] c f
    by (simp add: world_cached_def)
qed

text \<open>
  C2. When the cache has no fresh entry and executing the batch throws, the call still
  returns a record (nothing is thrown to the caller), and the record holds no field from
  the batch: it is empty, or holds only the profile that the separate profile call gave.
\<close>

theorem batch_failure_swallowed:
  assumes miss: "cache_hit en (clock w) (getValue w (id_field p)) = Inr None"
    and cg: "isContactOrGroup p = Inr isCG"
    and thrown: "batch_server graph
       (enqueueRequests en (id_field p) (getEmailFromGraphEntity en p) isMe isCG []) = Inl e"
  shows "\<exists>data. fst (getPersonCardGraphData en graph p isMe w) = Inr data
     \<and> (data = [] \<or> (\<exists>pr. data = [(''profile'', pr)]
            \<and> api_server graph (profileRequest (id_field p)) = Inr pr))"
proof -
  let ?d = "fst (collectData en graph (id_field p) (getEmailFromGraphEntity en p) isMe isCG w)"
  have d: "?d = [] \<or> (\<exists>pr. ?d = [(''profile'', pr)]
            \<and> api_server graph (profileRequest (id_field p)) = Inr pr)"
    using thrown by (simp add: collectData_fst fetchBatchData_fst split: sum.splits)
  then have "postFilter en ?d = Inr ?d"
    by (auto simp: postFilter_def)
  then have "fst (getPersonCardGraphData en graph p isMe w) = Inr ?d"
    by (simp add: miss_result [OF miss cg])
  with d show ?thesis by blast
qed

theorem batch_failure_swallowed_witness:
  "cache_hit example_env (clock world_empty) (getValue world_empty (id_field person_u1)) = Inr None
   \<and> isContactOrGroup person_u1 = Inr False
   \<and> batch_server graph_down (enqueueRequests example_env (id_field person_u1)
        (getEmailFromGraphEntity example_env person_u1) False False []) = Inl (GraphError ''batch'')
   \<and> fst (getPersonCardGraphData example_env graph_down person_u1 False world_empty) = Inr []"
proof -
  have miss: "cache_hit example_env (clock world_empty) (getValue world_empty (id_field person_u1)) = Inr None"
    by (simp add: cache_hit_def getValue_def world_empty_def)
  have cg: "isContactOrGroup person_u1 = Inr False"
    by (simp add: isContactOrGroup_def has_key_def person_u1_def)
  have thrown: "batch_server graph_down (enqueueRequests example_env (id_field person_u1)
        (getEmailFromGraphEntity example_env person_u1) False False []) = Inl (GraphError ''batch'')"
    by (simp add: graph_down_def)
  have "api_server graph_down (profileRequest (id_field person_u1)) = Inl (GraphError ''api'')"
    by (simp add: graph_down_def)
  with batch_failure_swallowed [OF miss cg thrown] miss cg thrown
  show ?thesis by auto
qed

text \<open>
  C3. In every record returned after a fetch (no fresh cache entry), a \<^verbatim>\<open>directReports\<close>
  list has no entry whose \<^verbatim>\<open>accountEnabled\<close> is \<^verbatim>\<open>false\<close>, whatever mix of enabled
  and disabled entries was fetched; every other field is the one assembled before the
  post-filter.
\<close>

theorem direct_reports_exclude_disabled:
  assumes miss: "cache_hit en (clock w) (getValue w (id_field p)) = Inr None"
    and cg: "isContactOrGroup p = Inr isCG"
    and result: "getPersonCardGraphData en graph p isMe w = (Inr data, w')"
  shows "(\<forall>reports. get_member (JObj data) ''directReports'' = JArr reports \<longrightarrow>
            (\<forall>r \<in> set reports. get_member r ''accountEnabled'' \<noteq> JBool False))
     \<and> (\<forall>k. k \<noteq> ''directReports'' \<longrightarrow>
            map_of data k =
              map_of (fst (collectData en graph (id_field p) (getEmailFromGraphEntity en p) isMe isCG w)) k)"
proof -
  let ?d = "fst (collectData en graph (id_field p) (getEmailFromGraphEntity en p) isMe isCG w)"
  have pf: "postFilter en ?d = Inr data"
    using miss_result_Inr [OF miss cg result] by simp
  have "\<forall>reports. get_member (JObj data) ''directReports'' = JArr reports \<longrightarrow>
            (\<forall>r \<in> set reports. get_member r ''accountEnabled'' \<noteq> JBool False)"
  proof (intro allI impI ballI)
    fix reports r
    assume "get_member (JObj data) ''directReports'' = JArr reports" and "r \<in> set reports"
    with postFilter_result_array [OF pf] have "truthy (get_member r ''accountEnabled'')"
      by blast
    then show "get_member r ''accountEnabled'' \<noteq> JBool False"
      by auto
  qed
  moreover have "\<forall>k. k \<noteq> ''directReports'' \<longrightarrow> map_of data k = map_of ?d k"
    using postFilter_other_keys [OF pf] by blast
  ultimately show ?thesis by blast
qed

theorem direct_reports_exclude_disabled_witness:
  "cache_hit example_env (clock world_empty) (getValue world_empty (id_field person_u1)) = Inr None
   \<and> isContactOrGroup person_u1 = Inr False
   \<and> fst (getPersonCardGraphData example_env graph_reports person_u1 False world_empty) =
       Inr [(''directReports'', JArr [report_enabled]), (''people'', JObj [(''value'', JBool False)])]
   \<and> get_member report_enabled ''accountEnabled'' \<noteq> JBool False
   \<and> map_of [(''directReports'', JArr [report_enabled]), (''people'', JObj [(''value'', JBool False)])]
        ''people'' =
      map_of (fst (collectData example_env graph_reports (id_field person_u1)
                (getEmailFromGraphEntity example_env person_u1) False False world_empty)) ''people''"
proof -
  let ?data = "[(''directReports'', JArr [report_enabled]), (''people'', JObj [(''value'', JBool False)])]"
  have miss: "cache_hit example_env (clock world_empty) (getValue world_empty (id_field person_u1)) = Inr None"
    by (simp add: cache_hit_def getValue_def world_empty_def)
  have cg: "isContactOrGroup person_u1 = Inr False"
    by (simp add: isContactOrGroup_def has_key_def person_u1_def)
  have r: "fst (getPersonCardGraphData example_env graph_reports person_u1 False world_empty) = Inr ?data"
    by (simp add: model_defs example_env_def graph_reports_def person_u1_def world_empty_def
        report_enabled_def report_disabled_def report_unflagged_def report_null_def)
  then have result: "getPersonCardGraphData example_env graph_reports person_u1 False world_empty =
      (Inr ?data, snd (getPersonCardGraphData example_env graph_reports person_u1 False world_empty))"
    by (metis prod.collapse)
  have m: "get_member (JObj ?data) ''directReports'' = JArr [report_enabled]"
    by simp
  note th = direct_reports_exclude_disabled [OF miss cg result]
  from th m have a: "get_member report_enabled ''accountEnabled'' \<noteq> JBool False"
    by auto
  have b: "map_of ?data ''people'' =
      map_of (fst (collectData example_env graph_reports (id_field person_u1)
                (getEmailFromGraphEntity example_env person_u1) False False world_empty)) ''people''"
    using th [THEN conjunct2, THEN spec, of "''people''"] by simp
  from miss cg r a b show ?thesis by simp
qed

text \<open>
  C4. For an entity classified as a contact or group (it has a \<^verbatim>\<open>classification\<close>
  property, or a \<^verbatim>\<open>personType\<close> whose subclass is \<^verbatim>\<open>PersonalContact\<close> or whose class is
  \<^verbatim>\<open>Group\<close>), a fetch creates and executes one batch that has no org-structure entry
  (\<^verbatim>\<open>person\<close>, \<^verbatim>\<open>directReports\<close>) and no works-with entry, and makes no profile call,
  whatever the section configuration.
\<close>

theorem contact_or_group_requests:
  assumes miss: "cache_hit en (clock w) (getValue w (id_field p)) = Inr None"
    and classified: "has_key ''classification'' (props p)
       \<or> (has_key ''personType'' (props p)
           \<and> (get_member (get_member (JObj (props p)) ''personType'') ''subclass'' = JStr ''PersonalContact''
              \<or> get_member (get_member (JObj (props p)) ''personType'') ''class'' = JStr ''Group''))"
  shows "\<exists>batch. calls (snd (getPersonCardGraphData en graph p isMe w))
            = calls w @ [CreateBatch, ExecuteAll batch]
     \<and> (\<forall>r \<in> set batch. req_id r \<noteq> ''person'' \<and> req_id r \<noteq> ''directReports''
            \<and> req_id r \<noteq> ''people'')"
proof -
  have cg: "isContactOrGroup p = Inr True"
    using classified
    by (auto simp: isContactOrGroup_def get_prop_def nullish_def Let_def)
  let ?batch = "enqueueRequests en (id_field p) (getEmailFromGraphEntity en p) isMe True []"
  have "calls (snd (getPersonCardGraphData en graph p isMe w)) = calls w @ [CreateBatch, ExecuteAll ?batch]"
    by (simp add: miss_result [OF miss cg] collectData_calls putValue_def split: sum.splits)
  moreover have "\<forall>r \<in> set ?batch. req_id r \<noteq> ''person'' \<and> req_id r \<noteq> ''directReports''
            \<and> req_id r \<noteq> ''people''"
    using enqueueRequests_contact_ids [of en "id_field p" "getEmailFromGraphEntity en p" isMe "[]"]
    by auto
  ultimately show ?thesis by blast
qed

theorem contact_or_group_requests_witness:
  "cache_hit example_env (clock world_empty) (getValue world_empty (id_field person_contact)) = Inr None
   \<and> has_key ''personType'' (props person_contact)
   \<and> get_member (get_member (JObj (props person_contact)) ''personType'') ''subclass'' = JStr ''PersonalContact''
   \<and> calls (snd (getPersonCardGraphData example_env graph_reports person_contact False world_empty))
        = [CreateBatch, ExecuteAll [\<lparr>req_id = ''files'', req_resource = ''me/insights/used'',
              req_scopes = Some [''Sites.Read.All''], req_headers = None\<rparr>]]"
proof -
  have miss: "cache_hit example_env (clock world_empty) (getValue world_empty (id_field person_contact)) = Inr None"
    by (simp add: cache_hit_def getValue_def world_empty_def)
  have k: "has_key ''personType'' (props person_contact)"
    by (simp add: has_key_def person_contact_def)
  have s: "get_member (get_member (JObj (props person_contact)) ''personType'') ''subclass'' = JStr ''PersonalContact''"
    by (simp add: person_contact_def)
  have c: "calls (snd (getPersonCardGraphData example_env graph_reports person_contact False world_empty))
        = [CreateBatch, ExecuteAll [\<lparr>req_id = ''files'', req_resource = ''me/insights/used'',
              req_scopes = Some [''Sites.Read.All''], req_headers = None\<rparr>]]"
    by (simp add: model_defs example_env_def graph_reports_def person_contact_def world_empty_def)
  from contact_or_group_requests [OF miss, where graph = graph_reports and isMe = False] k s c miss
  show ?thesis by simp
qed




text \<open>
  The claim C6 as stated (every entry is registered with a non-empty set of scopes) fails
  for the \<^verbatim>\<open>directReports\<close> entry: \<open>buildOrgStructureRequest\<close> registers it with no
  scopes argument.
\<close>

theorem directReports_without_scopes:
  "req_id (last (buildOrgStructureRequest example_env [] ''u1'')) = ''directReports''
   \<and> req_scopes (last (buildOrgStructureRequest example_env [] ''u1'')) = None"
  by (simp add: buildOrgStructureRequest_def batch_get_def Let_def)

text \<open>
  C6, amended. Every entry the request builders register, other than \<^verbatim>\<open>directReports\<close>,
  is registered with a fixed, non-empty list of scopes: \<^verbatim>\<open>person\<close> with the imported
  \<^verbatim>\<open>validUserByIdScopes\<close>, \<^verbatim>\<open>people\<close> with \<^verbatim>\<open>People.Read.All\<close>, \<^verbatim>\<open>messages\<close> with
  the three mail scopes, \<^verbatim>\<open>files\<close> with the imported \<^verbatim>\<open>validInsightScopes\<close> (the two
  imported lists being non-empty); the \<^verbatim>\<open>directReports\<close> entry is registered without
  scopes.
\<close>

theorem builder_scopes_nonempty:
  assumes user_scopes: "validUserByIdScopes en \<noteq> []"
    and insight_scopes: "validInsightScopes en \<noteq> []"
  shows "(\<forall>r \<in> set (drop (length batch) (buildOrgStructureRequest en batch userId))
              \<union> set (drop (length batch) (buildWorksWithRequest batch userId))
              \<union> set (drop (length batch) (buildMessagesWithUserRequest batch emailAddress))
              \<union> set (drop (length batch) (buildFilesRequest en batch address)).
            req_id r \<noteq> ''directReports'' \<longrightarrow> (\<exists>s. req_scopes r = Some s \<and> s \<noteq> []))
     \<and> map req_id (buildOrgStructureRequest en batch userId) = map req_id batch @ [''person'', ''directReports'']
     \<and> map req_scopes (buildOrgStructureRequest en batch userId) =
          map req_scopes batch @ [Some (validUserByIdScopes en), None]
     \<and> map req_id (buildWorksWithRequest batch userId) = map req_id batch @ [''people'']
     \<and> map req_scopes (buildWorksWithRequest batch userId) =
          map req_scopes batch @ [Some [''People.Read.All'']]
     \<and> map req_id (buildMessagesWithUserRequest batch emailAddress) = map req_id batch @ [''messages'']
     \<and> map req_scopes (buildMessagesWithUserRequest batch emailAddress) =
          map req_scopes batch @ [Some [''Mail.ReadBasic'', ''Mail.Read'', ''Mail.ReadWrite'']]
     \<and> map req_id (buildFilesRequest en batch address) = map req_id batch @ [''files'']
     \<and> map req_scopes (buildFilesRequest en batch address) =
          map req_scopes batch @ [Some (validInsightScopes en)]"
  using assms
  by (simp add: buildOrgStructureRequest_def buildWorksWithRequest_def buildMessagesWithUserRequest_def
      buildFilesRequest_def batch_get_def Let_def validPeopleScopes_def validMailSearchScopes_def)

theorem builder_scopes_nonempty_witness:
  "validUserByIdScopes example_env \<noteq> []
   \<and> validInsightScopes example_env \<noteq> []
   \<and> map req_scopes (buildOrgStructureRequest example_env [] ''u1'') = [Some [''User.Read.All''], None]
   \<and> map req_scopes (buildWorksWithRequest [] ''u1'') = [Some [''People.Read.All'']]
   \<and> map req_scopes (buildMessagesWithUserRequest [] ''u1@x.com'') =
        [Some [''Mail.ReadBasic'', ''Mail.Read'', ''Mail.ReadWrite'']]
   \<and> map req_scopes (buildFilesRequest example_env [] (Some ''u1@x.com'')) = [Some [''Sites.Read.All'']]"
proof -
  have u: "validUserByIdScopes example_env \<noteq> []"
    by (simp add: example_env_def)
  have i: "validInsightScopes example_env \<noteq> []"
    by (simp add: example_env_def)
  have vu: "validUserByIdScopes example_env = [''User.Read.All'']"
    by (simp add: example_env_def)
  have vi: "validInsightScopes example_env = [''Sites.Read.All'']"
    by (simp add: example_env_def)
  from builder_scopes_nonempty [OF u i, where batch = "[]" and userId = "''u1''"
      and emailAddress = "''u1@x.com''" and address = "Some ''u1@x.com''"] u i vu vi
  show ?thesis by simp
qed

text \<open>
  The claim C7 as stated (the \<^verbatim>\<open>value\<close> field is stored whenever it is present) fails
  when the field is present and falsy: for the content \<^verbatim>\<open>{value: false}\<close> the raw content
  is stored.
\<close>

theorem falsy_value_keeps_content:
  "get_member (content \<lparr>content = JObj [(''value'', JBool False)]\<rparr>) ''value'' = JBool False
   \<and> has_key ''value'' [(''value'', JBool False)]
   \<and> mergeResponses [(''people'', \<lparr>content = JObj [(''value'', JBool False)]\<rparr>)] [] =
        [(''people'', JObj [(''value'', JBool False)])]
   \<and> JObj [(''value'', JBool False)] \<noteq> JBool False
   \<and> fst (getPersonCardGraphData example_env graph_reports person_u1 False world_empty) =
       Inr [(''directReports'', JArr [report_enabled]), (''people'', JObj [(''value'', JBool False)])]"
  by (simp add: model_defs example_env_def graph_reports_def person_u1_def world_empty_def
        report_enabled_def report_disabled_def report_unflagged_def report_null_def)

text \<open>
  C7, amended. For every named response in the result map of the executed batch (a
  registered request name that was answered), \<open>getPersonCardGraphData\<close> stores under that
  name the \<^verbatim>\<open>value\<close> field of the response's content whenever that field is truthy, and
  the raw content otherwise; a returned record holds it under that name
  (\<^verbatim>\<open>directReports\<close> apart, which the post-filter rewrites).
\<close>

theorem batch_response_stored:
  assumes miss: "cache_hit en (clock w) (getValue w (id_field p)) = Inr None"
    and cg: "isContactOrGroup p = Inr isCG"
    and answered: "batch_server graph
        (enqueueRequests en (id_field p) (getEmailFromGraphEntity en p) isMe isCG []) = Inr answer"
    and registered: "k \<in> req_id ` set (enqueueRequests en (id_field p) (getEmailFromGraphEntity en p) isMe isCG [])"
    and response: "answer k = Some v"
  shows "map_of (fst (fetchBatchData en graph (id_field p) (getEmailFromGraphEntity en p) isMe isCG w)) k =
           Some (if \<not> nullish (content v) \<and> truthy (get_member (content v) ''value'')
                 then get_member (content v) ''value'' else content v)
     \<and> (\<forall>data w'. getPersonCardGraphData en graph p isMe w = (Inr data, w') \<and> k \<noteq> ''directReports'' \<longrightarrow>
           map_of data k =
             Some (if \<not> nullish (content v) \<and> truthy (get_member (content v) ''value'')
                   then get_member (content v) ''value'' else content v))"
proof -
  let ?batch = "enqueueRequests en (id_field p) (getEmailFromGraphEntity en p) isMe isCG []"
  let ?b = "fst (fetchBatchData en graph (id_field p) (getEmailFromGraphEntity en p) isMe isCG w)"
  let ?c = "fst (collectData en graph (id_field p) (getEmailFromGraphEntity en p) isMe isCG w)"
  let ?V = "if \<not> nullish (content v) \<and> truthy (get_member (content v) ''value'')
            then get_member (content v) ''value'' else content v"
  have "map_of (response_map ?batch answer) k = Some v"
    using registered response by (simp add: response_map_lookup)
  then have "(k, v) \<in> set (response_map ?batch answer)"
    by (rule map_of_SomeD)
  from mergeResponses_present [OF response_map_distinct this, of "[]"]
  have "map_of (mergeResponses (response_map ?batch answer) []) k = Some ?V"
    by (simp add: payload_def opt_chain_def)
  with answered have stored: "map_of ?b k = Some ?V"
    by (simp add: fetchBatchData_fst)
  have "k \<noteq> ''profile''"
    using registered enqueueRequests_ids [of en "id_field p" "getEmailFromGraphEntity en p" isMe isCG "[]"]
    by auto
  then have collected: "map_of ?c k = map_of ?b k"
    by (simp add: collectData_fst Let_def update_conv' split: sum.splits)
  have returned: "\<forall>data w'. getPersonCardGraphData en graph p isMe w = (Inr data, w') \<and> k \<noteq> ''directReports'' \<longrightarrow>
           map_of data k = Some ?V"
  proof (intro allI impI)
    fix data w'
    assume a: "getPersonCardGraphData en graph p isMe w = (Inr data, w') \<and> k \<noteq> ''directReports''"
    then have pf: "postFilter en ?c = Inr data"
      using miss_result_Inr [OF miss cg, of graph isMe data w'] by simp
    from a have "map_of data k = map_of ?c k"
      using postFilter_other_keys [OF pf] by simp
    with collected stored show "map_of data k = Some ?V" by simp
  qed
  from stored returned show ?thesis by blast
qed

theorem batch_response_stored_witness:
  "cache_hit example_env (clock world_empty) (getValue world_empty (id_field person_u1)) = Inr None
   \<and> isContactOrGroup person_u1 = Inr False
   \<and> ''people'' \<in> req_id ` set (enqueueRequests example_env (id_field person_u1)
        (getEmailFromGraphEntity example_env person_u1) False False [])
   \<and> ''person'' \<in> req_id ` set (enqueueRequests example_env (id_field person_u1)
        (getEmailFromGraphEntity example_env person_u1) False False [])
   \<and> fst (getPersonCardGraphData example_env graph_people person_u1 False world_empty) =
       Inr [(''person'', JObj [(''id'', JStr ''u1''), (''displayName'', JStr ''U One'')]),
            (''people'', JArr [JObj [(''id'', JStr ''p1'')]])]
   \<and> map_of (fst (fetchBatchData example_env graph_people (id_field person_u1)
          (getEmailFromGraphEntity example_env person_u1) False False world_empty)) ''people''
       = Some (JArr [JObj [(''id'', JStr ''p1'')]])
   \<and> map_of (fst (fetchBatchData example_env graph_people (id_field person_u1)
          (getEmailFromGraphEntity example_env person_u1) False False world_empty)) ''person''
       = Some (JObj [(''id'', JStr ''u1''), (''displayName'', JStr ''U One'')])"
proof -
  let ?batch = "enqueueRequests example_env (id_field person_u1)
        (getEmailFromGraphEntity example_env person_u1) False False []"
  let ?answer = "\<lambda>k. if k = ''people''
        then Some \<lparr>content = JObj [(''value'', JArr [JObj [(''id'', JStr ''p1'')]])]\<rparr>
        else if k = ''person''
        then Some \<lparr>content = JObj [(''id'', JStr ''u1''), (''displayName'', JStr ''U One'')]\<rparr>
        else None"
  have miss: "cache_hit example_env (clock world_empty) (getValue world_empty (id_field person_u1)) = Inr None"
    by (simp add: cache_hit_def getValue_def world_empty_def)
  have cg: "isContactOrGroup person_u1 = Inr False"
    by (simp add: isContactOrGroup_def has_key_def person_u1_def)
  have answered: "batch_server graph_people ?batch = Inr ?answer"
    by (simp add: graph_people_def)
  have reg1: "''people'' \<in> req_id ` set ?batch"
    by (simp add: model_defs example_env_def person_u1_def)
  have reg2: "''person'' \<in> req_id ` set ?batch"
    by (simp add: model_defs example_env_def person_u1_def)
  have r: "fst (getPersonCardGraphData example_env graph_people person_u1 False world_empty) =
       Inr [(''person'', JObj [(''id'', JStr ''u1''), (''displayName'', JStr ''U One'')]),
            (''people'', JArr [JObj [(''id'', JStr ''p1'')]])]"
    by (simp add: model_defs example_env_def graph_people_def person_u1_def world_empty_def)
  have a1: "?answer ''people'' = Some \<lparr>content = JObj [(''value'', JArr [JObj [(''id'', JStr ''p1'')]])]\<rparr>"
    by simp
  have a2: "?answer ''person'' = Some \<lparr>content = JObj [(''id'', JStr ''u1''), (''displayName'', JStr ''U One'')]\<rparr>"
    by simp
  from batch_response_stored [OF miss cg answered reg1 a1, THEN conjunct1]
  have s1: "map_of (fst (fetchBatchData example_env graph_people (id_field person_u1)
          (getEmailFromGraphEntity example_env person_u1) False False world_empty)) ''people''
       = Some (JArr [JObj [(''id'', JStr ''p1'')]])"
    by (simp add: nullish_def)
  from batch_response_stored [OF miss cg answered reg2 a2, THEN conjunct1]
  have s2: "map_of (fst (fetchBatchData example_env graph_people (id_field person_u1)
          (getEmailFromGraphEntity example_env person_u1) False False world_empty)) ''person''
       = Some (JObj [(''id'', JStr ''u1''), (''displayName'', JStr ''U One'')])"
    by (simp add: nullish_def)
  from miss cg reg1 reg2 r s1 s2 show ?thesis by blast
qed

text \<open>
  C8. For all identifiers \<open>person\<close> and \<open>user\<close>, \<open>createChat\<close> posts to \<^verbatim>\<open>/chats\<close> a
  payload with \<^verbatim>\<open>chatType\<close> \<^verbatim>\<open>oneOnOne\<close> and exactly two members, the first bound to
  \<^verbatim>\<open>users('user')\<close> and the second to \<^verbatim>\<open>users('person')\<close>, each with the
  \<^verbatim>\<open>aadUserConversationMember\<close> type tag and the single role \<^verbatim>\<open>owner\<close>.
\<close>

theorem createChat_payload:
  "\<exists>body m1 m2 r.
     createChat graph person user w = (api_server graph r, perform graph (Api r) w)
     \<and> api_path r = ''/chats''
     \<and> api_headers r = [(''Cache-Control'', ''no-store'')]
     \<and> api_method r = POST body
     \<and> get_member body ''chatType'' = JStr ''oneOnOne''
     \<and> get_member body ''members'' = JArr [m1, m2]
     \<and> get_member m1 ''user@odata.bind'' =
          JStr (''https://graph.microsoft.com/v1.0/users('' @ squote @ user @ squote @ '')'')
     \<and> get_member m2 ''user@odata.bind'' =
          JStr (''https://graph.microsoft.com/v1.0/users('' @ squote @ person @ squote @ '')'')
     \<and> get_member m1 ''@odata.type'' = JStr ''#microsoft.graph.aadUserConversationMember''
     \<and> get_member m2 ''@odata.type'' = JStr ''#microsoft.graph.aadUserConversationMember''
     \<and> get_member m1 ''roles'' = JArr [JStr ''owner'']
     \<and> get_member m2 ''roles'' = JArr [JStr ''owner'']"
proof -
  let ?member = "\<lambda>x. JObj [(''@odata.type'', JStr ''#microsoft.graph.aadUserConversationMember''),
                   (''roles'', JArr [JStr ''owner'']),
                   (''user@odata.bind'',
                      JStr (''https://graph.microsoft.com/v1.0/users('' @ squote @ x @ squote @ '')''))]"
  let ?body = "JObj [(''chatType'', JStr ''oneOnOne''), (''members'', JArr [?member user, ?member person])]"
  let ?r = "\<lparr>api_path = ''/chats'', api_version = None,
            api_headers = [(''Cache-Control'', ''no-store'')],
            api_scopes = validCreateChatScopes, api_method = POST ?body\<rparr>"
  have sent: "createChat graph person user w = (api_server graph ?r, perform graph (Api ?r) w)"
    by (simp add: createChat_def api_send_def Let_def)
  show ?thesis
    apply (rule exI [of _ ?body])
    apply (rule exI [of _ "?member user"])
    apply (rule exI [of _ "?member person"])
    apply (rule exI [of _ ?r])
    apply (simp add: sent)
    done
qed

text \<open>
  C9. On a fetch (no fresh cache entry), whenever \<open>getPersonCardGraphData\<close> returns a
  record it has written that record to the cache under the entity id, stamped with the
  time of the write; a later call for the same entity id within the invalidation period
  returns the written entry and makes no call on the graph client. This holds in
  particular when the batch throws and the profile fetch fails or is skipped: the record
  is then empty, and is written all the same.
\<close>

theorem cache_written_on_miss:
  assumes miss: "cache_hit en (clock w) (getValue w (id_field p)) = Inr None"
    and cg: "isContactOrGroup p = Inr isCG"
  shows "(\<forall>data w'. getPersonCardGraphData en graph p isMe w = (Inr data, w') \<longrightarrow>
            cache w' (id_field p) = Some (AList.update ''timeCached'' (JNum (clock w')) data)
            \<and> (\<forall>graph2 p2 isMe2 w2.
                  id_field p2 = id_field p
                  \<and> cache w2 (id_field p) = cache w' (id_field p)
                  \<and> clock w2 - clock w' < getCardStateInvalidationTime en \<longrightarrow>
                  getPersonCardGraphData en graph2 p2 isMe2 w2 =
                    (Inr (AList.update ''timeCached'' (JNum (clock w')) data), w2)))
     \<and> ((\<exists>e. batch_server graph
                (enqueueRequests en (id_field p) (getEmailFromGraphEntity en p) isMe isCG []) = Inl e)
         \<and> (isCG \<or> \<not> profile (sections en)
              \<or> (\<exists>e. api_server graph (profileRequest (id_field p)) = Inl e)) \<longrightarrow>
         fst (getPersonCardGraphData en graph p isMe w) = Inr [])"
proof -
  let ?c = "collectData en graph (id_field p) (getEmailFromGraphEntity en p) isMe isCG w"
  have written: "\<forall>data w'. getPersonCardGraphData en graph p isMe w = (Inr data, w') \<longrightarrow>
            cache w' (id_field p) = Some (AList.update ''timeCached'' (JNum (clock w')) data)
            \<and> (\<forall>graph2 p2 isMe2 w2.
                  id_field p2 = id_field p
                  \<and> cache w2 (id_field p) = cache w' (id_field p)
                  \<and> clock w2 - clock w' < getCardStateInvalidationTime en \<longrightarrow>
                  getPersonCardGraphData en graph2 p2 isMe2 w2 =
                    (Inr (AList.update ''timeCached'' (JNum (clock w')) data), w2))"
  proof (intro allI impI)
    fix data w'
    assume result: "getPersonCardGraphData en graph p isMe w = (Inr data, w')"
    let ?entry = "AList.update ''timeCached'' (JNum (clock w')) data"
    from miss_result_Inr [OF miss cg result]
    have w': "w' = putValue (id_field p) data (snd ?c)" by simp
    then have stored: "cache w' (id_field p) = Some ?entry"
      by (simp add: putValue_lookup putValue_clock)
    have stamp: "get_member (JObj ?entry) ''timeCached'' = JNum (clock w')"
      by (rule get_member_update_same)
    have again: "\<forall>graph2 p2 isMe2 w2.
                  id_field p2 = id_field p
                  \<and> cache w2 (id_field p) = cache w' (id_field p)
                  \<and> clock w2 - clock w' < getCardStateInvalidationTime en \<longrightarrow>
                  getPersonCardGraphData en graph2 p2 isMe2 w2 = (Inr ?entry, w2)"
    proof (intro allI impI)
      fix graph2 isMe2 and p2 :: IDynamicPerson and w2 :: world
      assume a: "id_field p2 = id_field p
                  \<and> cache w2 (id_field p) = cache w' (id_field p)
                  \<and> clock w2 - clock w' < getCardStateInvalidationTime en"
      with stored have "cache w2 (id_field p2) = Some ?entry" by simp
      from cache_hit_fresh [OF this stamp] a
      have "cache_hit en (clock w2) (getValue w2 (id_field p2)) = Inr (Some ?entry)" by simp
      then show "getPersonCardGraphData en graph2 p2 isMe2 w2 = (Inr ?entry, w2)"
        by (rule hit_result)
    qed
    from stored again
    show "cache w' (id_field p) = Some ?entry
            \<and> (\<forall>graph2 p2 isMe2 w2.
                  id_field p2 = id_field p
                  \<and> cache w2 (id_field p) = cache w' (id_field p)
                  \<and> clock w2 - clock w' < getCardStateInvalidationTime en \<longrightarrow>
                  getPersonCardGraphData en graph2 p2 isMe2 w2 = (Inr ?entry, w2))"
      by blast
  qed
  have empty: "(\<exists>e. batch_server graph
                (enqueueRequests en (id_field p) (getEmailFromGraphEntity en p) isMe isCG []) = Inl e)
         \<and> (isCG \<or> \<not> profile (sections en)
              \<or> (\<exists>e. api_server graph (profileRequest (id_field p)) = Inl e)) \<longrightarrow>
         fst (getPersonCardGraphData en graph p isMe w) = Inr []"
  proof
    assume a: "(\<exists>e. batch_server graph
                (enqueueRequests en (id_field p) (getEmailFromGraphEntity en p) isMe isCG []) = Inl e)
         \<and> (isCG \<or> \<not> profile (sections en)
              \<or> (\<exists>e. api_server graph (profileRequest (id_field p)) = Inl e))"
    then have "fst ?c = []"
      by (auto simp: collectData_fst fetchBatchData_fst Let_def)
    moreover have "postFilter en [] = Inr []"
      by (simp add: postFilter_def)
    ultimately show "fst (getPersonCardGraphData en graph p isMe w) = Inr []"
      by (simp add: miss_result [OF miss cg])
  qed
  from written empty show ?thesis by blast
qed

theorem cache_written_on_miss_witness:
  "cache_hit example_env (clock world_empty) (getValue world_empty (id_field person_u1)) = Inr None
   \<and> isContactOrGroup person_u1 = Inr False
   \<and> batch_server graph_down (enqueueRequests example_env (id_field person_u1)
        (getEmailFromGraphEntity example_env person_u1) False False []) = Inl (GraphError ''batch'')
   \<and> api_server graph_down (profileRequest (id_field person_u1)) = Inl (GraphError ''api'')
   \<and> fst (getPersonCardGraphData example_env graph_down person_u1 False world_empty) = Inr []
   \<and> cache (snd (getPersonCardGraphData example_env graph_down person_u1 False world_empty)) ''u1''
        = Some [(''timeCached'', JNum 1015)]
   \<and> getPersonCardGraphData example_env graph_reports person_u1 True
        ((snd (getPersonCardGraphData example_env graph_down person_u1 False world_empty))\<lparr>clock := 2000\<rparr>)
      = (Inr [(''timeCached'', JNum 1015)],
         (snd (getPersonCardGraphData example_env graph_down person_u1 False world_empty))\<lparr>clock := 2000\<rparr>)"
proof -
  let ?w' = "snd (getPersonCardGraphData example_env graph_down person_u1 False world_empty)"
  have miss: "cache_hit example_env (clock world_empty) (getValue world_empty (id_field person_u1)) = Inr None"
    by (simp add: cache_hit_def getValue_def world_empty_def)
  have cg: "isContactOrGroup person_u1 = Inr False"
    by (simp add: isContactOrGroup_def has_key_def person_u1_def)
  have thrown: "batch_server graph_down (enqueueRequests example_env (id_field person_u1)
        (getEmailFromGraphEntity example_env person_u1) False False []) = Inl (GraphError ''batch'')"
    by (simp add: graph_down_def)
  have failed: "api_server graph_down (profileRequest (id_field person_u1)) = Inl (GraphError ''api'')"
    by (simp add: graph_down_def)
  note th = cache_written_on_miss [OF miss cg, where graph = graph_down and isMe = False]
  from th [THEN conjunct2] thrown failed
  have r: "fst (getPersonCardGraphData example_env graph_down person_u1 False world_empty) = Inr []"
    by blast
  then have result: "getPersonCardGraphData example_env graph_down person_u1 False world_empty = (Inr [], ?w')"
    by (metis prod.collapse)
  have clk: "clock ?w' = 1015"
    by (simp add: model_defs example_env_def graph_down_def person_u1_def world_empty_def)
  have id: "id_field person_u1 = ''u1''"
    by (simp add: person_u1_def)
  have period: "getCardStateInvalidationTime example_env = 3600000"
    by (simp add: getCardStateInvalidationTime_def example_env_def)
  from th [THEN conjunct1, THEN spec, THEN spec, THEN mp, OF result]
  have stored: "cache ?w' (id_field person_u1) = Some (AList.update ''timeCached'' (JNum (clock ?w')) [])"
    and again: "\<forall>graph2 p2 isMe2 w2.
        id_field p2 = id_field person_u1
        \<and> cache w2 (id_field person_u1) = cache ?w' (id_field person_u1)
        \<and> clock w2 - clock ?w' < getCardStateInvalidationTime example_env \<longrightarrow>
        getPersonCardGraphData example_env graph2 p2 isMe2 w2 =
          (Inr (AList.update ''timeCached'' (JNum (clock ?w')) []), w2)"
    by blast+
  from stored have s: "cache ?w' ''u1'' = Some [(''timeCached'', JNum 1015)]"
    by (simp add: clk id)
  have "getPersonCardGraphData example_env graph_reports person_u1 True (?w'\<lparr>clock := 2000\<rparr>)
      = (Inr (AList.update ''timeCached'' (JNum (clock ?w')) []), ?w'\<lparr>clock := 2000\<rparr>)"
    by (rule again [rule_format]) (simp add: clk period)
  then have "getPersonCardGraphData example_env graph_reports person_u1 True (?w'\<lparr>clock := 2000\<rparr>)
      = (Inr [(''timeCached'', JNum 1015)], ?w'\<lparr>clock := 2000\<rparr>)"
    by (simp add: clk)
  with miss cg thrown failed r s show ?thesis by blast
qed

text \<open>
  C10. The post-filter keeps exactly the entries of the fetched \<^verbatim>\<open>directReports\<close> list
  whose \<^verbatim>\<open>accountEnabled\<close> is truthy: an entry whose \<^verbatim>\<open>accountEnabled\<close> is missing,
  undefined or null is dropped like one whose \<^verbatim>\<open>accountEnabled\<close> is \<^verbatim>\<open>false\<close>.
\<close>

theorem falsy_reports_dropped:
  assumes miss: "cache_hit en (clock w) (getValue w (id_field p)) = Inr None"
    and cg: "isContactOrGroup p = Inr isCG"
    and result: "getPersonCardGraphData en graph p isMe w = (Inr data, w')"
    and fetched: "get_member
        (JObj (fst (collectData en graph (id_field p) (getEmailFromGraphEntity en p) isMe isCG w)))
        ''directReports'' = JArr reports"
  shows "\<exists>kept. get_member (JObj data) ''directReports'' = JArr kept
     \<and> kept = filter (\<lambda>r. truthy (get_member r ''accountEnabled'')) reports
     \<and> (\<forall>r \<in> set reports.
           get_member r ''accountEnabled'' \<in> {JUndefined, JNull, JBool False} \<longrightarrow> r \<notin> set kept)"
proof -
  let ?d = "fst (collectData en graph (id_field p) (getEmailFromGraphEntity en p) isMe isCG w)"
  have pf: "postFilter en ?d = Inr data"
    using miss_result_Inr [OF miss cg result] by simp
  have "get_member (JObj data) ''directReports'' =
      JArr (filter (\<lambda>r. truthy (get_member r ''accountEnabled'')) reports)"
    by (rule postFilter_array [OF pf fetched])
  then show ?thesis by auto
qed

theorem falsy_reports_dropped_witness:
  "cache_hit example_env (clock world_empty) (getValue world_empty (id_field person_u1)) = Inr None
   \<and> isContactOrGroup person_u1 = Inr False
   \<and> get_member (JObj (fst (collectData example_env graph_reports (id_field person_u1)
          (getEmailFromGraphEntity example_env person_u1) False False world_empty))) ''directReports''
       = JArr [report_enabled, report_disabled, report_unflagged, report_null]
   \<and> (\<exists>data. fst (getPersonCardGraphData example_env graph_reports person_u1 False world_empty) = Inr data
         \<and> get_member (JObj data) ''directReports'' = JArr [report_enabled])"
proof -
  let ?data = "[(''directReports'', JArr [report_enabled]), (''people'', JObj [(''value'', JBool False)])]"
  have miss: "cache_hit example_env (clock world_empty) (getValue world_empty (id_field person_u1)) = Inr None"
    by (simp add: cache_hit_def getValue_def world_empty_def)
  have cg: "isContactOrGroup person_u1 = Inr False"
    by (simp add: isContactOrGroup_def has_key_def person_u1_def)
  have r: "fst (getPersonCardGraphData example_env graph_reports person_u1 False world_empty) = Inr ?data"
    by (simp add: model_defs example_env_def graph_reports_def person_u1_def world_empty_def
        report_enabled_def report_disabled_def report_unflagged_def report_null_def)
  then have result: "getPersonCardGraphData example_env graph_reports person_u1 False world_empty =
      (Inr ?data, snd (getPersonCardGraphData example_env graph_reports person_u1 False world_empty))"
    by (metis prod.collapse)
  have fetched: "get_member (JObj (fst (collectData example_env graph_reports (id_field person_u1)
          (getEmailFromGraphEntity example_env person_u1) False False world_empty))) ''directReports''
       = JArr [report_enabled, report_disabled, report_unflagged, report_null]"
    by (simp add: model_defs example_env_def graph_reports_def person_u1_def world_empty_def)
  have t: "filter (\<lambda>r. truthy (get_member r ''accountEnabled''))
      [report_enabled, report_disabled, report_unflagged, report_null] = [report_enabled]"
    by (simp add: report_enabled_def report_disabled_def report_unflagged_def report_null_def)
  from falsy_reports_dropped [OF miss cg result fetched] t
  have "get_member (JObj ?data) ''directReports'' = JArr [report_enabled]"
    by simp
  with miss cg r fetched show ?thesis by blast
qed

end
